theory Spec2Isabelle
  imports Main
begin

section \<open>Job handlers of the job-bucket server\<close>

text \<open>
  A shallow embedding of \<^verbatim>\<open>src/controllers/job-controller.js\<close>. Every handler is a
  function of the authenticated user, the request and the Job collection; a handler
  that writes returns the collection it leaves behind. A call of \<^verbatim>\<open>next(err)\<close> and an
  exception escaping the handler are the \<open>Inl\<close> branch of the result, a call of
  \<^verbatim>\<open>res.status(n).json(...)\<close> is the \<open>Inr\<close> branch.
\<close>

subsection \<open>Values of the request and their truthiness\<close>

text \<open>
  The text fields of a request body are optional strings and its salary fields are
  optional numbers; \<open>None\<close> is a field that is \<^verbatim>\<open>undefined\<close> (or \<^verbatim>\<open>null\<close>).
  The tests \<^verbatim>\<open>!title\<close> and \<^verbatim>\<open>!fixedSalary\<close> are JavaScript's truthiness: a string is
  falsy when it is missing or empty, a number when it is missing or zero.
\<close>

fun truthyText :: "string option \<Rightarrow> bool" where
  "truthyText None = False"
| "truthyText (Some s) = (s \<noteq> [])"

fun truthyNumber :: "int option \<Rightarrow> bool" where
  "truthyNumber None = False"
| "truthyNumber (Some n) = (n \<noteq> 0)"

subsection \<open>Users, request bodies and Job documents\<close>

type_synonym objectId = string

text \<open>\<open>req.user\<close>: the identifier (\<^verbatim>\<open>_id\<close>) and the role of the caller.\<close>

record user =
  user_id :: objectId
  role :: string

text \<open>The nine fields that \<open>postJob\<close> reads from \<^verbatim>\<open>req.body\<close>.\<close>

record payload =
  title :: "string option"
  description :: "string option"
  category :: "string option"
  country :: "string option"
  city :: "string option"
  location :: "string option"
  fixedSalary :: "int option"
  salaryFrom :: "int option"
  salaryTo :: "int option"

text \<open>
  Modelled from the spec: the Job model (\<^verbatim>\<open>models/job-model.js\<close>) is not among the
  sources. A Job document holds the nine fields above, its identifier, \<open>postedBy\<close>
  and the flag \<open>expired\<close>, which is false on creation. The creation timestamp is left
  out (no handler reads it).
\<close>

record job = payload +
  job_id :: objectId
  postedBy :: objectId
  expired :: bool

text \<open>
  \<^verbatim>\<open>req.body\<close> as \<open>updateJob\<close> hands it to the storage layer: any subset of the fields
  of a Job; \<open>None\<close> is a field the body does not mention.
\<close>

record body = payload +
  new_postedBy :: "objectId option"
  new_expired :: "bool option"

subsection \<open>The storage layer\<close>

text \<open>
  Modelled from the spec: the persistence layer (find, findOne, create, findById,
  findByIdAndUpdate, deleteOne over one Job collection) is an external library. The
  collection is the list of its documents in insertion order. A query is a
  conjunction of conditions \<^verbatim>\<open>{field: value}\<close>; a condition whose value is
  \<^verbatim>\<open>undefined\<close> matches the documents that lack the field.
\<close>

datatype cond =
  Title "string option"
| Description "string option"
| Category "string option"
| Country "string option"
| City "string option"
| Location "string option"
| FixedSalary "int option"
| SalaryFrom "int option"
| SalaryTo "int option"
| PostedBy objectId
| Expired bool

fun holds :: "job \<Rightarrow> cond \<Rightarrow> bool" where
  "holds j (Title v) = (title j = v)"
| "holds j (Description v) = (description j = v)"
| "holds j (Category v) = (category j = v)"
| "holds j (Country v) = (country j = v)"
| "holds j (City v) = (city j = v)"
| "holds j (Location v) = (location j = v)"
| "holds j (FixedSalary v) = (fixedSalary j = v)"
| "holds j (SalaryFrom v) = (salaryFrom j = v)"
| "holds j (SalaryTo v) = (salaryTo j = v)"
| "holds j (PostedBy v) = (postedBy j = v)"
| "holds j (Expired v) = (expired j = v)"

definition matches :: "cond list \<Rightarrow> job \<Rightarrow> bool" where
  "matches q j = list_all (holds j) q"

text \<open>\<^verbatim>\<open>Job.find(q)\<close> and \<^verbatim>\<open>Job.findOne(q)\<close>.\<close>

definition find_all :: "cond list \<Rightarrow> job list \<Rightarrow> job list" where
  "find_all q db = filter (matches q) db"

definition findOne :: "cond list \<Rightarrow> job list \<Rightarrow> job option" where
  "findOne q db = List.find (matches q) db"

text \<open>
  \<^verbatim>\<open>Job.create(fields)\<close>: the new document gets the identifier \<open>oid\<close> that the driver
  generates for it, and \<open>expired = false\<close>.
\<close>

definition create :: "objectId \<Rightarrow> 'a payload_scheme \<Rightarrow> objectId \<Rightarrow> job" where
  "create oid p owner =
     \<lparr>title = title p, description = description p, category = category p,
      country = country p, city = city p, location = location p,
      fixedSalary = fixedSalary p, salaryFrom = salaryFrom p, salaryTo = salaryTo p,
      job_id = oid, postedBy = owner, expired = False\<rparr>"

text \<open>
  What reaches the error-reporting middleware: an \<^verbatim>\<open>ErrorHandler(message, statusCode)\<close>
  built by a handler (the status code is \<open>None\<close> when the constructor gets one
  argument only), the storage layer's \<^verbatim>\<open>CastError\<close> for an identifier that is
  malformed for its key format, or its \<^verbatim>\<open>ValidationError\<close> for an update that the
  validators of the Job model refuse.
\<close>

datatype error =
  ErrorHandler string "nat option"
| CastError
| ValidationError

text \<open>
  \<^verbatim>\<open>Job.findById(id)\<close>. The key format of the storage layer is the parameter
  \<open>wellFormed\<close>: the lookup throws on an identifier outside it.
\<close>

definition findById :: "(objectId \<Rightarrow> bool) \<Rightarrow> objectId \<Rightarrow> job list \<Rightarrow> error + job option" where
  "findById wellFormed i db =
     (if wellFormed i then Inr (List.find (\<lambda>j. job_id j = i) db) else Inl CastError)"

text \<open>The partial update: every field the body mentions replaces the document's.\<close>

definition orElse :: "'a option \<Rightarrow> 'a option \<Rightarrow> 'a option" where
  "orElse new old = (case new of None \<Rightarrow> old | Some v \<Rightarrow> Some v)"

definition applyUpdate :: "body \<Rightarrow> job \<Rightarrow> job" where
  "applyUpdate b j =
     \<lparr>title = orElse (title b) (title j),
      description = orElse (description b) (description j),
      category = orElse (category b) (category j),
      country = orElse (country b) (country j),
      city = orElse (city b) (city j),
      location = orElse (location b) (location j),
      fixedSalary = orElse (fixedSalary b) (fixedSalary j),
      salaryFrom = orElse (salaryFrom b) (salaryFrom j),
      salaryTo = orElse (salaryTo b) (salaryTo j),
      job_id = job_id j,
      postedBy = (case new_postedBy b of None \<Rightarrow> postedBy j | Some p \<Rightarrow> p),
      expired = (case new_expired b of None \<Rightarrow> expired j | Some e \<Rightarrow> e)\<rparr>"

text \<open>
  \<^verbatim>\<open>Job.findByIdAndUpdate(id, body, {new: true, runValidators: true, ...})\<close>.
  Modelled from the spec: the update re-applies validation to the merged document.
  The validators are those of the Job model, which is not among the sources: they are
  the parameter \<open>validate\<close>. The first document with the identifier is merged with the
  body; when the merged document passes, it replaces the stored one and is returned;
  when it fails, nothing is written and the lookup throws. The result is \<open>None\<close>
  (\<^verbatim>\<open>null\<close>) when no document has the identifier. A typed body sets fields to values
  only: it cannot set a field to \<^verbatim>\<open>null\<close>.
\<close>

fun findByIdAndUpdate ::
  "(job \<Rightarrow> bool) \<Rightarrow> objectId \<Rightarrow> body \<Rightarrow> job list \<Rightarrow> error + (job option \<times> job list)" where
  "findByIdAndUpdate validate i b [] = Inr (None, [])"
| "findByIdAndUpdate validate i b (j # js) =
     (if job_id j = i
      then (if validate (applyUpdate b j)
            then Inr (Some (applyUpdate b j), applyUpdate b j # js)
            else Inl ValidationError)
      else (case findByIdAndUpdate validate i b js of
              Inl e \<Rightarrow> Inl e
            | Inr (post, js') \<Rightarrow> Inr (post, j # js')))"

text \<open>\<^verbatim>\<open>post.deleteOne()\<close>: removes the first document with the identifier of \<open>post\<close>.\<close>

fun deleteOne :: "objectId \<Rightarrow> job list \<Rightarrow> job list" where
  "deleteOne i [] = []"
| "deleteOne i (j # js) = (if job_id j = i then js else j # deleteOne i js)"

subsection \<open>Responses\<close>

datatype json =
  Jobs "job list"
| Post string job
| MyJobs "job list"
| Updated "job option" string
| Message string
| Single job

text \<open>\<^verbatim>\<open>res.status(status).json({success, ...})\<close>.\<close>

record response =
  status :: nat
  success :: bool
  content :: json

subsection \<open>The handlers\<close>

definition getAllJobs :: "job list \<Rightarrow> error + response" where
  "getAllJobs db =
     Inr \<lparr>status = 200, success = True, content = Jobs (find_all [Expired False] db)\<rparr>"

definition postJob :: "objectId \<Rightarrow> user \<Rightarrow> body \<Rightarrow> job list \<Rightarrow> (error + response) \<times> job list" where
  "postJob oid u b db =
     (if role u = ''Job Seeker''
      then (Inl (ErrorHandler ''Job Seeker not allowed to access this resource.'' (Some 400)), db)
      else if \<not> truthyText (title b) \<or> \<not> truthyText (description b) \<or>
              \<not> truthyText (category b) \<or> \<not> truthyText (country b) \<or>
              \<not> truthyText (city b) \<or> \<not> truthyText (location b)
      then (Inl (ErrorHandler ''Please provide full job details.'' (Some 400)), db)
      else if (\<not> truthyNumber (salaryFrom b) \<or> \<not> truthyNumber (salaryTo b)) \<and>
              \<not> truthyNumber (fixedSalary b)
      then (Inl (ErrorHandler ''Please either provide fixed salary or ranged salary.'' (Some 400)), db)
      else if truthyNumber (salaryFrom b) \<and> truthyNumber (salaryTo b) \<and>
              truthyNumber (fixedSalary b)
      then (Inl (ErrorHandler ''Cannot Enter Fixed and Ranged Salary together.'' (Some 400)), db)
      else
        (case findOne [Title (title b), Description (description b), Category (category b),
                       Country (country b), City (city b), Location (location b),
                       FixedSalary (fixedSalary b), SalaryFrom (salaryFrom b),
                       SalaryTo (salaryTo b)] db of
           Some checkPostExist \<Rightarrow> (Inl (ErrorHandler ''Job already exist!'' None), db)
         | None \<Rightarrow>
             (Inr \<lparr>status = 200, success = True,
                   content = Post ''Job posted successfully!'' (create oid b (user_id u))\<rparr>,
              db @ [create oid b (user_id u)])))"

definition getMyJobs :: "user \<Rightarrow> job list \<Rightarrow> error + response" where
  "getMyJobs u db =
     (if role u = ''Job Seeker''
      then Inl (ErrorHandler ''Job Seeker not allowed to access this resource.'' (Some 400))
      else Inr \<lparr>status = 200, success = True,
                content = MyJobs (find_all [PostedBy (user_id u)] db)\<rparr>)"

definition updateJob ::
  "(objectId \<Rightarrow> bool) \<Rightarrow> (job \<Rightarrow> bool) \<Rightarrow> user \<Rightarrow> objectId \<Rightarrow> body \<Rightarrow> job list \<Rightarrow>
     (error + response) \<times> job list" where
  "updateJob wellFormed validate u i b db =
     (if role u = ''Job Seeker''
      then (Inl (ErrorHandler ''Opps Job not found!.'' (Some 400)), db)
      else
        (case findById wellFormed i db of
           Inl e \<Rightarrow> (Inl e, db)
         | Inr None \<Rightarrow>
             (Inl (ErrorHandler ''Job Seeker not allowed to access this resource.'' (Some 400)), db)
         | Inr (Some post) \<Rightarrow>
             (case findByIdAndUpdate validate i b db of
                Inl e \<Rightarrow> (Inl e, db)
              | Inr (post', db') \<Rightarrow>
                  (Inr \<lparr>status = 200, success = True,
                        content = Updated post' ''Job updated successfully!''\<rparr>,
                   db'))))"

definition deleteJob ::
  "(objectId \<Rightarrow> bool) \<Rightarrow> user \<Rightarrow> objectId \<Rightarrow> job list \<Rightarrow> (error + response) \<times> job list" where
  "deleteJob wellFormed u i db =
     (if role u = ''Job Seeker''
      then (Inl (ErrorHandler ''Job Seeker not allowed to access this resource.'' (Some 400)), db)
      else
        (case findById wellFormed i db of
           Inl e \<Rightarrow> (Inl e, db)
         | Inr None \<Rightarrow> (Inl (ErrorHandler ''Opps Job not found!.'' (Some 400)), db)
         | Inr (Some post) \<Rightarrow>
             (Inr \<lparr>status = 200, success = True, content = Message ''Job deleted successfully!''\<rparr>,
              deleteOne (job_id post) db)))"

text \<open>
  \<open>getSingleJob\<close> wraps the lookup in \<^verbatim>\<open>try/catch\<close>: whatever the lookup throws becomes
  the 404 of the \<^verbatim>\<open>catch\<close> branch.
\<close>

definition getSingleJob :: "(objectId \<Rightarrow> bool) \<Rightarrow> objectId \<Rightarrow> job list \<Rightarrow> error + response" where
  "getSingleJob wellFormed i db =
     (case findById wellFormed i db of
        Inl e \<Rightarrow> Inl (ErrorHandler ''Invalid ID / CastError!'' (Some 404))
      | Inr None \<Rightarrow> Inl (ErrorHandler ''Job not found!'' (Some 404))
      | Inr (Some j) \<Rightarrow> Inr \<lparr>status = 200, success = True, content = Single j\<rparr>)"

subsection \<open>The session cookie\<close>

text \<open>
  The arithmetic of \<open>sendResponseToken\<close>: a JavaScript number is an integer number of
  milliseconds or \<^verbatim>\<open>NaN\<close>, and \<^verbatim>\<open>NaN\<close> absorbs every operation. \<^verbatim>\<open>new Date(t)\<close> is the
  invalid date when \<open>t\<close> is \<^verbatim>\<open>NaN\<close> or beyond the range of a time value.
\<close>

datatype jsnum = NaN | Number int

fun mul :: "jsnum \<Rightarrow> jsnum \<Rightarrow> jsnum" where
  "mul (Number a) (Number b) = Number (a * b)"
| "mul _ _ = NaN"

fun add :: "jsnum \<Rightarrow> jsnum \<Rightarrow> jsnum" where
  "add (Number a) (Number b) = Number (a + b)"
| "add _ _ = NaN"

datatype jsdate = InvalidDate | Date int

fun newDate :: "jsnum \<Rightarrow> jsdate" where
  "newDate NaN = InvalidDate"
| "newDate (Number t) = (if \<bar>t\<bar> \<le> 8640000000000000 then Date t else InvalidDate)"

text \<open>
  The global \<^verbatim>\<open>process\<close> object: its property \<^verbatim>\<open>env\<close> holds the environment, a map
  from variable names to strings. Reading any other property name gives
  \<^verbatim>\<open>undefined\<close>. An object and \<^verbatim>\<open>undefined\<close> both convert to the number \<^verbatim>\<open>NaN\<close>.
\<close>

record process =
  env :: "string \<rightharpoonup> string"

datatype jsval = Undefined | Object "string \<rightharpoonup> string"

definition property :: "process \<Rightarrow> string \<Rightarrow> jsval" where
  "property p name = (if name = ''env'' then Object (env p) else Undefined)"

fun toNumber :: "jsval \<Rightarrow> jsnum" where
  "toNumber Undefined = NaN"
| "toNumber (Object obj) = NaN"

record cookie_options =
  expiresIn :: jsdate
  httpOnly :: bool

record cookie =
  cookie_name :: string
  cookie_value :: string
  cookie_opts :: cookie_options

record token_json =
  json_success :: bool
  json_user :: user
  json_message :: string
  json_token :: string

record token_response =
  res_status :: nat
  res_cookie :: cookie
  res_json :: token_json

text \<open>
  \<open>sendResponseToken\<close>. The signing method \<^verbatim>\<open>user.getJWTtoken()\<close> of the user model
  is the parameter \<open>getJWTtoken\<close>, the clock \<^verbatim>\<open>Date.now()\<close> the parameter \<open>now\<close>. The
  source reads the property \<^verbatim>\<open>envCOOKIE_EXPIRE\<close> of \<^verbatim>\<open>process\<close>.
\<close>

definition sendResponseToken ::
  "(user \<Rightarrow> string) \<Rightarrow> int \<Rightarrow> process \<Rightarrow> user \<Rightarrow> nat \<Rightarrow> string \<Rightarrow> token_response" where
  "sendResponseToken getJWTtoken now proc usr statusCode message =
     (let token = getJWTtoken usr;
          options =
            \<lparr>expiresIn =
               newDate (add (Number now)
                 (mul (mul (mul (mul (toNumber (property proc ''envCOOKIE_EXPIRE'')) (Number 24))
                   (Number 60)) (Number 60)) (Number 1000))),
             httpOnly = True\<rparr>
      in \<lparr>res_status = statusCode,
          res_cookie = \<lparr>cookie_name = ''token'', cookie_value = token, cookie_opts = options\<rparr>,
          res_json = \<lparr>json_success = True, json_user = usr, json_message = message,
                      json_token = token\<rparr>\<rparr>)"

subsection \<open>Example data\<close>

text \<open>
  A key format for the examples: 24 hexadecimal digits, as the storage layer's
  object identifiers are written.
\<close>

definition hexDigit :: "char \<Rightarrow> bool" where
  "hexDigit c = (c \<in> set ''0123456789abcdefABCDEF'')"

definition objectIdHex :: "objectId \<Rightarrow> bool" where
  "objectIdHex s = (length s = 24 \<and> list_all hexDigit s)"

text \<open>
  Modelled from the spec: the invariant of a Job that the validation of an update
  re-applies in the examples: exactly one salary representation is present, either
  \<open>fixedSalary\<close> alone or both \<open>salaryFrom\<close> and \<open>salaryTo\<close>.
\<close>

definition exactlyOneSalary :: "job \<Rightarrow> bool" where
  "exactlyOneSalary j =
     (fixedSalary j \<noteq> None \<and> salaryFrom j = None \<and> salaryTo j = None \<or>
      fixedSalary j = None \<and> salaryFrom j \<noteq> None \<and> salaryTo j \<noteq> None)"

definition employer :: user where
  "employer = \<lparr>user_id = ''65a1f0c2b3d4e5f60718293a'', role = ''Employer''\<rparr>"

definition otherEmployer :: user where
  "otherEmployer = \<lparr>user_id = ''65a1f0c2b3d4e5f60718293b'', role = ''Employer''\<rparr>"

definition seeker :: user where
  "seeker = \<lparr>user_id = ''65a1f0c2b3d4e5f60718293c'', role = ''Job Seeker''\<rparr>"

text \<open>The request of the spec's example, with the salary fields as given.\<close>

definition devRequest :: "int option \<Rightarrow> int option \<Rightarrow> int option \<Rightarrow> body" where
  "devRequest fixed from to =
     \<lparr>title = Some ''Dev'', description = Some ''Build X'', category = Some ''Eng'',
      country = Some ''US'', city = Some ''NY'', location = Some ''Office'',
      fixedSalary = fixed, salaryFrom = from, salaryTo = to,
      new_postedBy = None, new_expired = None\<rparr>"

text \<open>The document that request becomes when \<open>owner\<close> posts it.\<close>

definition devJob :: "objectId \<Rightarrow> objectId \<Rightarrow> int option \<Rightarrow> int option \<Rightarrow> int option \<Rightarrow> bool \<Rightarrow> job" where
  "devJob oid owner fixed from to e =
     \<lparr>title = Some ''Dev'', description = Some ''Build X'', category = Some ''Eng'',
      country = Some ''US'', city = Some ''NY'', location = Some ''Office'',
      fixedSalary = fixed, salaryFrom = from, salaryTo = to,
      job_id = oid, postedBy = owner, expired = e\<rparr>"

definition emptyBody :: body where
  "emptyBody =
     \<lparr>title = None, description = None, category = None, country = None, city = None,
      location = None, fixedSalary = None, salaryFrom = None, salaryTo = None,
      new_postedBy = None, new_expired = None\<rparr>"

section \<open>Properties\<close>

subsection \<open>Facts about the storage layer\<close>

lemma findById_found:
  "findById fmt i db = Inr (Some j) \<Longrightarrow> fmt i \<and> j \<in> set db \<and> job_id j = i"
  by (auto simp: findById_def find_Some_iff split: if_splits)

lemma findById_absent:
  "findById fmt i db = Inr None \<longleftrightarrow> fmt i \<and> \<not> (\<exists>j\<in>set db. job_id j = i)"
  by (auto simp: findById_def find_None_iff split: if_splits)

lemma findById_malformed:
  "findById fmt i db = Inl e \<longleftrightarrow> \<not> fmt i \<and> e = CastError"
  by (auto simp: findById_def split: if_splits)

lemma findOne_tuple_None:
  "findOne [Title t, Description d, Category c, Country co, City ci, Location l,
            FixedSalary f, SalaryFrom sf, SalaryTo st] db = None \<longleftrightarrow>
   \<not> (\<exists>j\<in>set db. title j = t \<and> description j = d \<and> category j = c \<and> country j = co \<and>
        city j = ci \<and> location j = l \<and> fixedSalary j = f \<and> salaryFrom j = sf \<and> salaryTo j = st)"
  by (auto simp: findOne_def find_None_iff matches_def)

lemma postJob_cases:
  "postJob oid u b db = (Inr r, db') \<Longrightarrow>
     role u \<noteq> ''Job Seeker'' \<and>
     truthyText (title b) \<and> truthyText (description b) \<and> truthyText (category b) \<and>
     truthyText (country b) \<and> truthyText (city b) \<and> truthyText (location b) \<and>
     (truthyNumber (fixedSalary b) \<or> truthyNumber (salaryFrom b) \<and> truthyNumber (salaryTo b)) \<and>
     \<not> (truthyNumber (salaryFrom b) \<and> truthyNumber (salaryTo b) \<and> truthyNumber (fixedSalary b)) \<and>
     r = \<lparr>status = 200, success = True,
          content = Post ''Job posted successfully!'' (create oid b (user_id u))\<rparr> \<and>
     db' = db @ [create oid b (user_id u)]"
  unfolding postJob_def
  by (auto split: if_splits option.splits)

lemma matches_not_expired: "matches [Expired False] = (\<lambda>j. \<not> expired j)"
  by (simp add: fun_eq_iff matches_def)

subsection \<open>Salary representation of a created Job\<close>

text \<open>
  Claim C1, as amended. For every create request that \<open>postJob\<close> accepts, the persisted
  Job carries the salary fields of the request, and among them at least one complete
  salary representation with non-zero values: a non-zero \<open>fixedSalary\<close>, or a
  non-zero \<open>salaryFrom\<close> together with a non-zero \<open>salaryTo\<close>; and the three are never
  all non-zero at once. (The claim as written asks for exactly one representation,
  \<open>fixedSalary\<close> alone or the range alone; the handler also accepts a fixed salary
  that comes with one field of a range.)
\<close>

theorem C1_salary_representation:
  assumes "postJob oid u b db = (Inr r, db')"
  shows "\<exists>doc. content r = Post ''Job posted successfully!'' doc \<and> db' = db @ [doc] \<and>
           fixedSalary doc = fixedSalary b \<and> salaryFrom doc = salaryFrom b \<and>
           salaryTo doc = salaryTo b \<and>
           (truthyNumber (fixedSalary doc) \<or>
            truthyNumber (salaryFrom doc) \<and> truthyNumber (salaryTo doc)) \<and>
           \<not> (truthyNumber (fixedSalary doc) \<and> truthyNumber (salaryFrom doc) \<and>
              truthyNumber (salaryTo doc))"
proof -
  let ?doc = "create oid b (user_id u)"
  from postJob_cases [OF assms]
  have r: "content r = Post ''Job posted successfully!'' ?doc" and d: "db' = db @ [?doc]"
    and s: "truthyNumber (fixedSalary b) \<or> truthyNumber (salaryFrom b) \<and> truthyNumber (salaryTo b)"
    and n: "\<not> (truthyNumber (salaryFrom b) \<and> truthyNumber (salaryTo b) \<and> truthyNumber (fixedSalary b))"
    by simp_all
  have f: "fixedSalary ?doc = fixedSalary b" "salaryFrom ?doc = salaryFrom b"
    "salaryTo ?doc = salaryTo b"
    by (simp_all add: create_def)
  from r d s n f show ?thesis by auto
qed

text \<open>
  The claim as written fails: an Employer's request with \<open>fixedSalary = 5000\<close> and
  \<open>salaryFrom = 1000\<close> (no \<open>salaryTo\<close>) passes both salary checks, and the persisted
  Job carries \<open>fixedSalary\<close> together with \<open>salaryFrom\<close>: neither \<open>fixedSalary\<close>
  alone nor a range.
\<close>

theorem C1_counterexample:
  "postJob ''65a1f0c2b3d4e5f607182940'' employer (devRequest (Some 5000) (Some 1000) None) [] =
     (Inr \<lparr>status = 200, success = True,
           content = Post ''Job posted successfully!''
             (devJob ''65a1f0c2b3d4e5f607182940'' ''65a1f0c2b3d4e5f60718293a''
                (Some 5000) (Some 1000) None False)\<rparr>,
      [devJob ''65a1f0c2b3d4e5f607182940'' ''65a1f0c2b3d4e5f60718293a''
         (Some 5000) (Some 1000) None False]) \<and>
   fixedSalary (devJob ''65a1f0c2b3d4e5f607182940'' ''65a1f0c2b3d4e5f60718293a''
         (Some 5000) (Some 1000) None False) = Some 5000 \<and>
   salaryFrom (devJob ''65a1f0c2b3d4e5f607182940'' ''65a1f0c2b3d4e5f60718293a''
         (Some 5000) (Some 1000) None False) = Some 1000 \<and>
   salaryTo (devJob ''65a1f0c2b3d4e5f607182940'' ''65a1f0c2b3d4e5f60718293a''
         (Some 5000) (Some 1000) None False) = None"
  by (simp add: postJob_def employer_def devRequest_def devJob_def findOne_def create_def)

text \<open>The amended claim at the ranged request of the spec's example.\<close>

theorem C1_witness:
  "postJob ''65a1f0c2b3d4e5f607182940'' employer (devRequest None (Some 1000) (Some 2000)) [] =
     (Inr \<lparr>status = 200, success = True,
           content = Post ''Job posted successfully!''
             (devJob ''65a1f0c2b3d4e5f607182940'' ''65a1f0c2b3d4e5f60718293a''
                None (Some 1000) (Some 2000) False)\<rparr>,
      [devJob ''65a1f0c2b3d4e5f607182940'' ''65a1f0c2b3d4e5f60718293a''
         None (Some 1000) (Some 2000) False]) \<and>
   truthyNumber (salaryFrom (devJob ''65a1f0c2b3d4e5f607182940'' ''65a1f0c2b3d4e5f60718293a''
         None (Some 1000) (Some 2000) False)) \<and>
   truthyNumber (salaryTo (devJob ''65a1f0c2b3d4e5f607182940'' ''65a1f0c2b3d4e5f60718293a''
         None (Some 1000) (Some 2000) False)) \<and>
   \<not> truthyNumber (fixedSalary (devJob ''65a1f0c2b3d4e5f607182940'' ''65a1f0c2b3d4e5f60718293a''
         None (Some 1000) (Some 2000) False))"
proof -
  have run: "postJob ''65a1f0c2b3d4e5f607182940'' employer (devRequest None (Some 1000) (Some 2000)) [] =
     (Inr \<lparr>status = 200, success = True,
           content = Post ''Job posted successfully!''
             (devJob ''65a1f0c2b3d4e5f607182940'' ''65a1f0c2b3d4e5f60718293a''
                None (Some 1000) (Some 2000) False)\<rparr>,
      [devJob ''65a1f0c2b3d4e5f607182940'' ''65a1f0c2b3d4e5f60718293a''
         None (Some 1000) (Some 2000) False])"
    by (simp add: postJob_def employer_def devRequest_def devJob_def findOne_def create_def)
  from C1_salary_representation [OF run] run show ?thesis
    by (simp add: devJob_def)
qed

subsection \<open>Who may update and delete\<close>

text \<open>
  Claim C2, as amended. A Job is mutated or deleted only on the request of a caller
  whose role is not \<^verbatim>\<open>Job Seeker\<close>: for every update or delete request that succeeds,
  the caller's role is not \<^verbatim>\<open>Job Seeker\<close>, the identifier is well-formed and a Job
  with that identifier exists; a Job Seeker's request leaves the collection as it
  was; and the outcome of either handler does not depend on the caller's identifier
  (it is never compared with \<open>postedBy\<close>).
\<close>

theorem C2_update_delete_guard:
  "(updateJob fmt validate u i b db = (Inr r, db') \<longrightarrow>
      role u \<noteq> ''Job Seeker'' \<and> fmt i \<and> (\<exists>j\<in>set db. job_id j = i)) \<and>
   (deleteJob fmt u i db = (Inr r, db') \<longrightarrow>
      role u \<noteq> ''Job Seeker'' \<and> fmt i \<and> (\<exists>j\<in>set db. job_id j = i)) \<and>
   (role u = ''Job Seeker'' \<longrightarrow>
      snd (updateJob fmt validate u i b db) = db \<and> snd (deleteJob fmt u i db) = db) \<and>
   updateJob fmt validate (u\<lparr>user_id := caller\<rparr>) i b db = updateJob fmt validate u i b db \<and>
   deleteJob fmt (u\<lparr>user_id := caller\<rparr>) i db = deleteJob fmt u i db"
proof -
  have upd: "updateJob fmt validate u i b db = (Inr r, db') \<longrightarrow>
      role u \<noteq> ''Job Seeker'' \<and> fmt i \<and> (\<exists>j\<in>set db. job_id j = i)"
    by (auto simp: updateJob_def split: if_splits sum.splits option.splits prod.splits
        dest: findById_found)
  have del: "deleteJob fmt u i db = (Inr r, db') \<longrightarrow>
      role u \<noteq> ''Job Seeker'' \<and> fmt i \<and> (\<exists>j\<in>set db. job_id j = i)"
    by (auto simp: deleteJob_def split: if_splits sum.splits option.splits
        dest: findById_found)
  have js: "role u = ''Job Seeker'' \<longrightarrow>
      snd (updateJob fmt validate u i b db) = db \<and> snd (deleteJob fmt u i db) = db"
    by (simp add: updateJob_def deleteJob_def)
  have ind: "updateJob fmt validate (u\<lparr>user_id := caller\<rparr>) i b db = updateJob fmt validate u i b db"
    "deleteJob fmt (u\<lparr>user_id := caller\<rparr>) i db = deleteJob fmt u i db"
    by (simp_all add: updateJob_def deleteJob_def)
  from upd del js ind show ?thesis by blast
qed

text \<open>
  The claim as written fails: an Employer who did not post the Job deletes it, and
  marks it expired by an update; both requests succeed with status 200 and change
  the collection.
\<close>

theorem C2_counterexample:
  "deleteJob objectIdHex otherEmployer ''65a1f0c2b3d4e5f607182940''
      [devJob ''65a1f0c2b3d4e5f607182940'' (user_id employer) (Some 5000) None None False] =
     (Inr \<lparr>status = 200, success = True, content = Message ''Job deleted successfully!''\<rparr>, []) \<and>
   updateJob objectIdHex exactlyOneSalary otherEmployer ''65a1f0c2b3d4e5f607182940''
      (emptyBody\<lparr>new_expired := Some True\<rparr>)
      [devJob ''65a1f0c2b3d4e5f607182940'' (user_id employer) (Some 5000) None None False] =
     (Inr \<lparr>status = 200, success = True,
           content = Updated
             (Some (devJob ''65a1f0c2b3d4e5f607182940'' (user_id employer) (Some 5000) None None True))
             ''Job updated successfully!''\<rparr>,
      [devJob ''65a1f0c2b3d4e5f607182940'' (user_id employer) (Some 5000) None None True]) \<and>
   user_id otherEmployer \<noteq>
     postedBy (devJob ''65a1f0c2b3d4e5f607182940'' (user_id employer) (Some 5000) None None False)"
  by (simp add: deleteJob_def updateJob_def findById_def objectIdHex_def hexDigit_def
      otherEmployer_def employer_def devJob_def emptyBody_def applyUpdate_def orElse_def
      exactlyOneSalary_def)

text \<open>
  The amended claim at a successful update by an Employer and a delete request by a
  Job Seeker.
\<close>

theorem C2_witness:
  "updateJob objectIdHex exactlyOneSalary employer ''65a1f0c2b3d4e5f607182940''
      (emptyBody\<lparr>new_expired := Some True\<rparr>)
      [devJob ''65a1f0c2b3d4e5f607182940'' (user_id employer) (Some 5000) None None False] =
     (Inr \<lparr>status = 200, success = True,
           content = Updated
             (Some (devJob ''65a1f0c2b3d4e5f607182940'' (user_id employer) (Some 5000) None None True))
             ''Job updated successfully!''\<rparr>,
      [devJob ''65a1f0c2b3d4e5f607182940'' (user_id employer) (Some 5000) None None True]) \<and>
   role employer \<noteq> ''Job Seeker'' \<and> objectIdHex ''65a1f0c2b3d4e5f607182940'' \<and>
   role seeker = ''Job Seeker'' \<and>
   snd (deleteJob objectIdHex seeker ''65a1f0c2b3d4e5f607182940''
      [devJob ''65a1f0c2b3d4e5f607182940'' (user_id employer) (Some 5000) None None False]) =
     [devJob ''65a1f0c2b3d4e5f607182940'' (user_id employer) (Some 5000) None None False]"
proof -
  let ?db = "[devJob ''65a1f0c2b3d4e5f607182940'' (user_id employer) (Some 5000) None None False]"
  let ?db' = "[devJob ''65a1f0c2b3d4e5f607182940'' (user_id employer) (Some 5000) None None True]"
  let ?r = "\<lparr>status = 200, success = True,
           content = Updated
             (Some (devJob ''65a1f0c2b3d4e5f607182940'' (user_id employer) (Some 5000) None None True))
             ''Job updated successfully!''\<rparr>"
  have run: "updateJob objectIdHex exactlyOneSalary employer ''65a1f0c2b3d4e5f607182940''
      (emptyBody\<lparr>new_expired := Some True\<rparr>) ?db = (Inr ?r, ?db')"
    by (simp add: updateJob_def findById_def objectIdHex_def hexDigit_def
      employer_def devJob_def emptyBody_def applyUpdate_def orElse_def exactlyOneSalary_def)
  have s: "role seeker = ''Job Seeker''" by (simp add: seeker_def)
  from C2_update_delete_guard [of objectIdHex exactlyOneSalary employer
      "''65a1f0c2b3d4e5f607182940''"
      "emptyBody\<lparr>new_expired := Some True\<rparr>" ?db ?r ?db'] run
  have a: "role employer \<noteq> ''Job Seeker'' \<and> objectIdHex ''65a1f0c2b3d4e5f607182940''"
    by blast
  from C2_update_delete_guard [of objectIdHex exactlyOneSalary seeker
      "''65a1f0c2b3d4e5f607182940''"
      emptyBody ?db] s
  have b: "snd (deleteJob objectIdHex seeker ''65a1f0c2b3d4e5f607182940'' ?db) = ?db"
    by blast
  from run a s b show ?thesis by blast
qed

subsection \<open>Duplicate detection\<close>

text \<open>
  Claim C3. A create request that passes the role, required-field and salary checks
  and whose field tuple (title, description, category, country, city, location,
  fixedSalary, salaryFrom, salaryTo) equals that of an existing Job fails with the
  error \<^verbatim>\<open>Job already exist!\<close> and writes nothing. The error is built without a
  status code: the claim's status 400 is not what the handler passes on, unlike
  every other rejection of \<open>postJob\<close>.
\<close>

theorem C3_duplicate_error_without_status:
  assumes "role u \<noteq> ''Job Seeker''"
    and "truthyText (title b)" "truthyText (description b)" "truthyText (category b)"
      "truthyText (country b)" "truthyText (city b)" "truthyText (location b)"
    and "truthyNumber (fixedSalary b) \<or> truthyNumber (salaryFrom b) \<and> truthyNumber (salaryTo b)"
    and "\<not> (truthyNumber (fixedSalary b) \<and> truthyNumber (salaryFrom b) \<and> truthyNumber (salaryTo b))"
    and "j \<in> set db"
    and "title j = title b" "description j = description b" "category j = category b"
      "country j = country b" "city j = city b" "location j = location b"
      "fixedSalary j = fixedSalary b" "salaryFrom j = salaryFrom b" "salaryTo j = salaryTo b"
  shows "postJob oid u b db = (Inl (ErrorHandler ''Job already exist!'' None), db)"
proof -
  have "findOne [Title (title b), Description (description b), Category (category b),
                 Country (country b), City (city b), Location (location b),
                 FixedSalary (fixedSalary b), SalaryFrom (salaryFrom b),
                 SalaryTo (salaryTo b)] db \<noteq> None"
    unfolding findOne_tuple_None using assms(10-19) by blast
  then obtain e where "findOne [Title (title b), Description (description b), Category (category b),
                 Country (country b), City (city b), Location (location b),
                 FixedSalary (fixedSalary b), SalaryFrom (salaryFrom b),
                 SalaryTo (salaryTo b)] db = Some e"
    by blast
  with assms(1-9) show ?thesis
    unfolding postJob_def by auto
qed

text \<open>The duplicate request at a concrete collection: the error carries no status 400.\<close>

theorem C3_witness:
  "postJob ''65a1f0c2b3d4e5f607182941'' employer (devRequest (Some 5000) None None)
      [devJob ''65a1f0c2b3d4e5f607182940'' ''65a1f0c2b3d4e5f60718293a'' (Some 5000) None None False] =
     (Inl (ErrorHandler ''Job already exist!'' None),
      [devJob ''65a1f0c2b3d4e5f607182940'' ''65a1f0c2b3d4e5f60718293a'' (Some 5000) None None False]) \<and>
   ErrorHandler ''Job already exist!'' None \<noteq> ErrorHandler ''Job already exist!'' (Some 400)"
  using C3_duplicate_error_without_status [of employer "devRequest (Some 5000) None None"
      "devJob ''65a1f0c2b3d4e5f607182940'' ''65a1f0c2b3d4e5f60718293a'' (Some 5000) None None False"
      "[devJob ''65a1f0c2b3d4e5f607182940'' ''65a1f0c2b3d4e5f60718293a'' (Some 5000) None None False]"
      "''65a1f0c2b3d4e5f607182941''"]
  by (simp add: employer_def devRequest_def devJob_def)

subsection \<open>The session cookie\<close>

text \<open>
  Claim C4. For every user, status code and message, \<open>sendResponseToken\<close> sets a
  cookie named \<^verbatim>\<open>token\<close> that holds the user's signed token and is HTTP-only, and
  responds with the given status and a body of \<open>success\<close>, the user, the message and
  the token. The expiration it computes is the invalid date, whatever the environment
  variable \<^verbatim>\<open>COOKIE_EXPIRE\<close> holds: the handler multiplies the undefined property
  \<^verbatim>\<open>process.envCOOKIE_EXPIRE\<close>, so the claim's expiration of the configured number of
  days from the current time does not hold.
\<close>

theorem C4_cookie_expiry_invalid:
  "sendResponseToken getJWTtoken now proc usr statusCode message =
     \<lparr>res_status = statusCode,
      res_cookie = \<lparr>cookie_name = ''token'', cookie_value = getJWTtoken usr,
                    cookie_opts = \<lparr>expiresIn = InvalidDate, httpOnly = True\<rparr>\<rparr>,
      res_json = \<lparr>json_success = True, json_user = usr, json_message = message,
                  json_token = getJWTtoken usr\<rparr>\<rparr>"
  by (simp add: sendResponseToken_def property_def Let_def)

text \<open>With \<^verbatim>\<open>COOKIE_EXPIRE=7\<close>, the expiration is not seven days from the current time.\<close>

theorem C4_witness:
  "env \<lparr>env = [''COOKIE_EXPIRE'' \<mapsto> ''7'']\<rparr> ''COOKIE_EXPIRE'' = Some ''7'' \<and>
   expiresIn (cookie_opts (res_cookie
     (sendResponseToken (\<lambda>u. ''jwt.'' @ user_id u) 1700000000000
        \<lparr>env = [''COOKIE_EXPIRE'' \<mapsto> ''7'']\<rparr> employer 200 ''Logged in''))) = InvalidDate \<and>
   InvalidDate \<noteq> Date (1700000000000 + 7 * 24 * 60 * 60 * 1000)"
  using C4_cookie_expiry_invalid [of "\<lambda>u. ''jwt.'' @ user_id u" 1700000000000
      "\<lparr>env = [''COOKIE_EXPIRE'' \<mapsto> ''7'']\<rparr>" employer 200 "''Logged in''"]
  by simp

subsection \<open>Job Seekers are rejected\<close>

text \<open>
  Claim C5. For every request to create, list-my-jobs, update or delete whose caller
  has role \<^verbatim>\<open>Job Seeker\<close>, the handler rejects with status 400, whatever the payload,
  and the collection is left as it was (\<open>getMyJobs\<close> only reads it).
\<close>

theorem C5_job_seeker_rejected:
  assumes "role u = ''Job Seeker''"
  shows "postJob oid u b db =
           (Inl (ErrorHandler ''Job Seeker not allowed to access this resource.'' (Some 400)), db) \<and>
         getMyJobs u db =
           Inl (ErrorHandler ''Job Seeker not allowed to access this resource.'' (Some 400)) \<and>
         updateJob fmt validate u i b db = (Inl (ErrorHandler ''Opps Job not found!.'' (Some 400)), db) \<and>
         deleteJob fmt u i db =
           (Inl (ErrorHandler ''Job Seeker not allowed to access this resource.'' (Some 400)), db)"
  using assms by (simp add: postJob_def getMyJobs_def updateJob_def deleteJob_def)

text \<open>A Job Seeker's four requests, with a valid payload and an existing Job.\<close>

theorem C5_witness:
  "role seeker = ''Job Seeker'' \<and>
   postJob ''65a1f0c2b3d4e5f607182941'' seeker (devRequest (Some 5000) None None) [] =
     (Inl (ErrorHandler ''Job Seeker not allowed to access this resource.'' (Some 400)), []) \<and>
   getMyJobs seeker [] =
     Inl (ErrorHandler ''Job Seeker not allowed to access this resource.'' (Some 400)) \<and>
   updateJob objectIdHex exactlyOneSalary seeker ''65a1f0c2b3d4e5f607182940'' (devRequest (Some 5000) None None)
      [devJob ''65a1f0c2b3d4e5f607182940'' ''65a1f0c2b3d4e5f60718293c'' (Some 4000) None None False] =
     (Inl (ErrorHandler ''Opps Job not found!.'' (Some 400)),
      [devJob ''65a1f0c2b3d4e5f607182940'' ''65a1f0c2b3d4e5f60718293c'' (Some 4000) None None False]) \<and>
   deleteJob objectIdHex seeker ''65a1f0c2b3d4e5f607182940''
      [devJob ''65a1f0c2b3d4e5f607182940'' ''65a1f0c2b3d4e5f60718293c'' (Some 4000) None None False] =
     (Inl (ErrorHandler ''Job Seeker not allowed to access this resource.'' (Some 400)),
      [devJob ''65a1f0c2b3d4e5f607182940'' ''65a1f0c2b3d4e5f60718293c'' (Some 4000) None None False])"
proof -
  have s: "role seeker = ''Job Seeker''" by (simp add: seeker_def)
  from C5_job_seeker_rejected [OF s, of "''65a1f0c2b3d4e5f607182941''"
      "devRequest (Some 5000) None None" "[]"]
  have a: "postJob ''65a1f0c2b3d4e5f607182941'' seeker (devRequest (Some 5000) None None) [] =
     (Inl (ErrorHandler ''Job Seeker not allowed to access this resource.'' (Some 400)), [])"
    "getMyJobs seeker [] =
     Inl (ErrorHandler ''Job Seeker not allowed to access this resource.'' (Some 400))"
    by blast+
  from C5_job_seeker_rejected [OF s, of _ "devRequest (Some 5000) None None"
      "[devJob ''65a1f0c2b3d4e5f607182940'' ''65a1f0c2b3d4e5f60718293c'' (Some 4000) None None False]"
      objectIdHex exactlyOneSalary "''65a1f0c2b3d4e5f607182940''"]
  have b: "updateJob objectIdHex exactlyOneSalary seeker ''65a1f0c2b3d4e5f607182940'' (devRequest (Some 5000) None None)
      [devJob ''65a1f0c2b3d4e5f607182940'' ''65a1f0c2b3d4e5f60718293c'' (Some 4000) None None False] =
     (Inl (ErrorHandler ''Opps Job not found!.'' (Some 400)),
      [devJob ''65a1f0c2b3d4e5f607182940'' ''65a1f0c2b3d4e5f60718293c'' (Some 4000) None None False])"
    "deleteJob objectIdHex seeker ''65a1f0c2b3d4e5f607182940''
      [devJob ''65a1f0c2b3d4e5f607182940'' ''65a1f0c2b3d4e5f60718293c'' (Some 4000) None None False] =
     (Inl (ErrorHandler ''Job Seeker not allowed to access this resource.'' (Some 400)),
      [devJob ''65a1f0c2b3d4e5f607182940'' ''65a1f0c2b3d4e5f60718293c'' (Some 4000) None None False])"
    by blast+
  from s a b show ?thesis by blast
qed

subsection \<open>A valid create request\<close>

text \<open>
  Claim C6, as amended. A value counts as present when it is supplied and non-empty
  (a text) or non-zero (a number). For every create request by a caller who is not a
  Job Seeker (an Employer), with all six required fields present, a well-formed salary
  shape (\<open>fixedSalary\<close> present and neither \<open>salaryFrom\<close> nor \<open>salaryTo\<close> present, or
  both \<open>salaryFrom\<close> and \<open>salaryTo\<close> present and \<open>fixedSalary\<close> not present) and no
  existing Job with the same field tuple, \<open>postJob\<close> appends to the collection a Job
  whose \<open>postedBy\<close> is the caller's identifier and whose fields equal the payload's,
  and responds with status 200 and that Job in \<open>post\<close>. (As written, with a supplied
  zero counted as present, the claim fails.)
\<close>

theorem C6_valid_request_persisted:
  assumes "role u \<noteq> ''Job Seeker''"
    and "truthyText (title b)" "truthyText (description b)" "truthyText (category b)"
      "truthyText (country b)" "truthyText (city b)" "truthyText (location b)"
    and "truthyNumber (fixedSalary b) \<and> \<not> truthyNumber (salaryFrom b) \<and>
           \<not> truthyNumber (salaryTo b) \<or>
         \<not> truthyNumber (fixedSalary b) \<and> truthyNumber (salaryFrom b) \<and>
           truthyNumber (salaryTo b)"
    and "\<And>j. j \<in> set db \<Longrightarrow>
           \<not> (title j = title b \<and> description j = description b \<and> category j = category b \<and>
              country j = country b \<and> city j = city b \<and> location j = location b \<and>
              fixedSalary j = fixedSalary b \<and> salaryFrom j = salaryFrom b \<and>
              salaryTo j = salaryTo b)"
  shows "\<exists>doc. postJob oid u b db =
           (Inr \<lparr>status = 200, success = True, content = Post ''Job posted successfully!'' doc\<rparr>,
            db @ [doc]) \<and>
         postedBy doc = user_id u \<and> expired doc = False \<and> job_id doc = oid \<and>
         title doc = title b \<and> description doc = description b \<and> category doc = category b \<and>
         country doc = country b \<and> city doc = city b \<and> location doc = location b \<and>
         fixedSalary doc = fixedSalary b \<and> salaryFrom doc = salaryFrom b \<and>
         salaryTo doc = salaryTo b"
proof -
  have none: "findOne [Title (title b), Description (description b), Category (category b),
                 Country (country b), City (city b), Location (location b),
                 FixedSalary (fixedSalary b), SalaryFrom (salaryFrom b),
                 SalaryTo (salaryTo b)] db = None"
    unfolding findOne_tuple_None using assms(9) by blast
  have shape: "truthyNumber (fixedSalary b) \<or> truthyNumber (salaryFrom b) \<and> truthyNumber (salaryTo b)"
    "\<not> (truthyNumber (salaryFrom b) \<and> truthyNumber (salaryTo b) \<and> truthyNumber (fixedSalary b))"
    using assms(8) by auto
  have run: "postJob oid u b db =
      (Inr \<lparr>status = 200, success = True,
            content = Post ''Job posted successfully!'' (create oid b (user_id u))\<rparr>,
       db @ [create oid b (user_id u)])"
    unfolding postJob_def using assms(1-7) shape none by auto
  show ?thesis
    by (rule exI [of _ "create oid b (user_id u)"]) (simp add: run, simp add: create_def)
qed

text \<open>
  The claim as written fails: an Employer's request with all required fields and
  \<open>fixedSalary = 0\<close> alone, on an empty collection, supplies a fixed salary and no
  range; it is rejected with status 400 and nothing is persisted.
\<close>

theorem C6_counterexample:
  "role employer = ''Employer'' \<and>
   fixedSalary (devRequest (Some 0) None None) = Some 0 \<and>
   salaryFrom (devRequest (Some 0) None None) = None \<and>
   salaryTo (devRequest (Some 0) None None) = None \<and>
   postJob ''65a1f0c2b3d4e5f607182940'' employer (devRequest (Some 0) None None) [] =
     (Inl (ErrorHandler ''Please either provide fixed salary or ranged salary.'' (Some 400)), [])"
  by (simp add: postJob_def employer_def devRequest_def)

text \<open>
  The amended claim at the spec's example, the fixed-salary request of an Employer on
  an empty collection, and at the same request with both range fields supplied as 0.
\<close>

theorem C6_witness:
  "postJob ''65a1f0c2b3d4e5f607182940'' employer (devRequest (Some 5000) None None) [] =
     (Inr \<lparr>status = 200, success = True,
           content = Post ''Job posted successfully!''
             (devJob ''65a1f0c2b3d4e5f607182940'' ''65a1f0c2b3d4e5f60718293a''
                (Some 5000) None None False)\<rparr>,
      [devJob ''65a1f0c2b3d4e5f607182940'' ''65a1f0c2b3d4e5f60718293a''
         (Some 5000) None None False]) \<and>
   postJob ''65a1f0c2b3d4e5f607182940'' employer (devRequest (Some 5000) (Some 0) (Some 0)) [] =
     (Inr \<lparr>status = 200, success = True,
           content = Post ''Job posted successfully!''
             (devJob ''65a1f0c2b3d4e5f607182940'' ''65a1f0c2b3d4e5f60718293a''
                (Some 5000) (Some 0) (Some 0) False)\<rparr>,
      [devJob ''65a1f0c2b3d4e5f607182940'' ''65a1f0c2b3d4e5f60718293a''
         (Some 5000) (Some 0) (Some 0) False])"
proof -
  have one: "postJob ''65a1f0c2b3d4e5f607182940'' employer (devRequest (Some 5000) from to) [] =
     (Inr \<lparr>status = 200, success = True,
           content = Post ''Job posted successfully!''
             (devJob ''65a1f0c2b3d4e5f607182940'' ''65a1f0c2b3d4e5f60718293a''
                (Some 5000) from to False)\<rparr>,
      [devJob ''65a1f0c2b3d4e5f607182940'' ''65a1f0c2b3d4e5f60718293a''
         (Some 5000) from to False])"
    if zero: "\<not> truthyNumber from" "\<not> truthyNumber to" for "from" to
  proof -
    from C6_valid_request_persisted [of employer "devRequest (Some 5000) from to" "[]"
        "''65a1f0c2b3d4e5f607182940''"] zero
    obtain doc where
      run: "postJob ''65a1f0c2b3d4e5f607182940'' employer (devRequest (Some 5000) from to) [] =
         (Inr \<lparr>status = 200, success = True, content = Post ''Job posted successfully!'' doc\<rparr>,
          [] @ [doc])"
      and f: "postedBy doc = user_id employer" "expired doc = False"
        "job_id doc = ''65a1f0c2b3d4e5f607182940''"
        "title doc = title (devRequest (Some 5000) from to)"
        "description doc = description (devRequest (Some 5000) from to)"
        "category doc = category (devRequest (Some 5000) from to)"
        "country doc = country (devRequest (Some 5000) from to)"
        "city doc = city (devRequest (Some 5000) from to)"
        "location doc = location (devRequest (Some 5000) from to)"
        "fixedSalary doc = fixedSalary (devRequest (Some 5000) from to)"
        "salaryFrom doc = salaryFrom (devRequest (Some 5000) from to)"
        "salaryTo doc = salaryTo (devRequest (Some 5000) from to)"
      by (auto simp: employer_def devRequest_def)
    from f have "doc = devJob ''65a1f0c2b3d4e5f607182940'' ''65a1f0c2b3d4e5f60718293a''
           (Some 5000) from to False"
      by (cases doc) (simp add: devJob_def devRequest_def employer_def)
    with run show ?thesis by simp
  qed
  from one [of None None] one [of "Some 0" "Some 0"] show ?thesis by simp
qed

subsection \<open>Salary shapes that are rejected\<close>

text \<open>
  Claim C7, as amended. A salary value counts as present when it is supplied and
  non-zero. For every create request whose salary fields are neither fully fixed
  (\<open>fixedSalary\<close> present) nor fully ranged (both \<open>salaryFrom\<close> and \<open>salaryTo\<close>
  present), or in which all three are present, the handler rejects with status 400
  and writes nothing. (As written, with a supplied zero counted as present, the claim
  fails.)
\<close>

theorem C7_salary_shape_rejected:
  assumes "\<not> truthyNumber (fixedSalary b) \<and>
             (\<not> truthyNumber (salaryFrom b) \<or> \<not> truthyNumber (salaryTo b)) \<or>
           truthyNumber (fixedSalary b) \<and> truthyNumber (salaryFrom b) \<and>
             truthyNumber (salaryTo b)"
  shows "\<exists>m. postJob oid u b db = (Inl (ErrorHandler m (Some 400)), db)"
  using assms unfolding postJob_def by auto

text \<open>
  The claim as written fails: an Employer's request that supplies all three salary
  fields, \<open>fixedSalary = 5000\<close>, \<open>salaryFrom = 0\<close> and \<open>salaryTo = 2000\<close>, is accepted
  with status 200 and persisted.
\<close>

theorem C7_counterexample:
  "postJob ''65a1f0c2b3d4e5f607182940'' employer (devRequest (Some 5000) (Some 0) (Some 2000)) [] =
     (Inr \<lparr>status = 200, success = True,
           content = Post ''Job posted successfully!''
             (devJob ''65a1f0c2b3d4e5f607182940'' ''65a1f0c2b3d4e5f60718293a''
                (Some 5000) (Some 0) (Some 2000) False)\<rparr>,
      [devJob ''65a1f0c2b3d4e5f607182940'' ''65a1f0c2b3d4e5f60718293a''
         (Some 5000) (Some 0) (Some 2000) False])"
  by (simp add: postJob_def employer_def devRequest_def devJob_def findOne_def create_def)

text \<open>
  The amended claim at a request with both forms (all non-zero) and at a request with
  half a range.
\<close>

theorem C7_witness:
  "postJob ''65a1f0c2b3d4e5f607182940'' employer (devRequest (Some 5000) (Some 1000) (Some 2000)) [] =
     (Inl (ErrorHandler ''Cannot Enter Fixed and Ranged Salary together.'' (Some 400)), []) \<and>
   postJob ''65a1f0c2b3d4e5f607182940'' employer (devRequest None (Some 1000) None) [] =
     (Inl (ErrorHandler ''Please either provide fixed salary or ranged salary.'' (Some 400)), [])"
proof -
  have over: "postJob ''65a1f0c2b3d4e5f607182940'' employer
      (devRequest (Some 5000) (Some 1000) (Some 2000)) [] \<noteq>
     (Inl (ErrorHandler m (Some 400)), []) \<or>
     m = ''Cannot Enter Fixed and Ranged Salary together.''" for m
    by (simp add: postJob_def employer_def devRequest_def)
  have under: "postJob ''65a1f0c2b3d4e5f607182940'' employer
      (devRequest None (Some 1000) None) [] \<noteq>
     (Inl (ErrorHandler m (Some 400)), []) \<or>
     m = ''Please either provide fixed salary or ranged salary.''" for m
    by (simp add: postJob_def employer_def devRequest_def)
  from C7_salary_shape_rejected [of "devRequest (Some 5000) (Some 1000) (Some 2000)"
      "''65a1f0c2b3d4e5f607182940''" employer "[]"]
  obtain m1 where "postJob ''65a1f0c2b3d4e5f607182940'' employer
      (devRequest (Some 5000) (Some 1000) (Some 2000)) [] = (Inl (ErrorHandler m1 (Some 400)), [])"
    by (auto simp: devRequest_def)
  with over [of m1] have a: "postJob ''65a1f0c2b3d4e5f607182940'' employer
      (devRequest (Some 5000) (Some 1000) (Some 2000)) [] =
     (Inl (ErrorHandler ''Cannot Enter Fixed and Ranged Salary together.'' (Some 400)), [])"
    by auto
  from C7_salary_shape_rejected [of "devRequest None (Some 1000) None"
      "''65a1f0c2b3d4e5f607182940''" employer "[]"]
  obtain m2 where "postJob ''65a1f0c2b3d4e5f607182940'' employer
      (devRequest None (Some 1000) None) [] = (Inl (ErrorHandler m2 (Some 400)), [])"
    by (auto simp: devRequest_def)
  with under [of m2] have b: "postJob ''65a1f0c2b3d4e5f607182940'' employer
      (devRequest None (Some 1000) None) [] =
     (Inl (ErrorHandler ''Please either provide fixed salary or ranged salary.'' (Some 400)), [])"
    by auto
  from a b show ?thesis by blast
qed

subsection \<open>Looking up a single Job\<close>

text \<open>
  Claim C8. For every get-single-job request: if the identifier is malformed for the
  storage layer's key format, the response is 404 with the message
  \<^verbatim>\<open>Invalid ID / CastError!\<close>; if it is well-formed and no Job has it, the response is
  404 with the message \<^verbatim>\<open>Job not found!\<close>; otherwise the response is 200 with a Job
  of the collection that has the identifier.
\<close>

theorem C8_single_job_lookup:
  "(\<not> fmt i \<longrightarrow>
      getSingleJob fmt i db = Inl (ErrorHandler ''Invalid ID / CastError!'' (Some 404))) \<and>
   (fmt i \<and> (\<forall>j\<in>set db. job_id j \<noteq> i) \<longrightarrow>
      getSingleJob fmt i db = Inl (ErrorHandler ''Job not found!'' (Some 404))) \<and>
   (fmt i \<and> (\<exists>j\<in>set db. job_id j = i) \<longrightarrow>
      (\<exists>j. getSingleJob fmt i db = Inr \<lparr>status = 200, success = True, content = Single j\<rparr> \<and>
           j \<in> set db \<and> job_id j = i))"
proof -
  have bad: "\<not> fmt i \<longrightarrow>
      getSingleJob fmt i db = Inl (ErrorHandler ''Invalid ID / CastError!'' (Some 404))"
    by (simp add: getSingleJob_def findById_def)
  have absent: "fmt i \<and> (\<forall>j\<in>set db. job_id j \<noteq> i) \<longrightarrow>
      getSingleJob fmt i db = Inl (ErrorHandler ''Job not found!'' (Some 404))"
  proof
    assume "fmt i \<and> (\<forall>j\<in>set db. job_id j \<noteq> i)"
    then have "findById fmt i db = Inr None"
      unfolding findById_absent by blast
    then show "getSingleJob fmt i db = Inl (ErrorHandler ''Job not found!'' (Some 404))"
      by (simp add: getSingleJob_def)
  qed
  have found: "fmt i \<and> (\<exists>j\<in>set db. job_id j = i) \<longrightarrow>
      (\<exists>j. getSingleJob fmt i db = Inr \<lparr>status = 200, success = True, content = Single j\<rparr> \<and>
           j \<in> set db \<and> job_id j = i)"
  proof
    assume h: "fmt i \<and> (\<exists>j\<in>set db. job_id j = i)"
    then have "findById fmt i db \<noteq> Inr None"
      unfolding findById_absent by blast
    moreover from h have "\<And>e. findById fmt i db \<noteq> Inl e"
      unfolding findById_malformed by blast
    ultimately obtain j where j: "findById fmt i db = Inr (Some j)"
      by (cases "findById fmt i db") auto
    from findById_found [OF j] j
    show "\<exists>j. getSingleJob fmt i db = Inr \<lparr>status = 200, success = True, content = Single j\<rparr> \<and>
           j \<in> set db \<and> job_id j = i"
      by (auto simp: getSingleJob_def)
  qed
  from bad absent found show ?thesis by blast
qed

text \<open>The three cases on a collection of one Job.\<close>

theorem C8_witness:
  "getSingleJob objectIdHex ''not-an-id''
      [devJob ''65a1f0c2b3d4e5f607182940'' ''65a1f0c2b3d4e5f60718293a'' (Some 5000) None None False] =
     Inl (ErrorHandler ''Invalid ID / CastError!'' (Some 404)) \<and>
   getSingleJob objectIdHex ''65a1f0c2b3d4e5f607182949''
      [devJob ''65a1f0c2b3d4e5f607182940'' ''65a1f0c2b3d4e5f60718293a'' (Some 5000) None None False] =
     Inl (ErrorHandler ''Job not found!'' (Some 404)) \<and>
   getSingleJob objectIdHex ''65a1f0c2b3d4e5f607182940''
      [devJob ''65a1f0c2b3d4e5f607182940'' ''65a1f0c2b3d4e5f60718293a'' (Some 5000) None None False] =
     Inr \<lparr>status = 200, success = True,
          content = Single (devJob ''65a1f0c2b3d4e5f607182940'' ''65a1f0c2b3d4e5f60718293a''
            (Some 5000) None None False)\<rparr>"
proof -
  let ?db = "[devJob ''65a1f0c2b3d4e5f607182940'' ''65a1f0c2b3d4e5f60718293a''
      (Some 5000) None None False]"
  have a: "getSingleJob objectIdHex ''not-an-id'' ?db =
     Inl (ErrorHandler ''Invalid ID / CastError!'' (Some 404))"
    using C8_single_job_lookup [of objectIdHex "''not-an-id''" ?db]
    by (simp add: objectIdHex_def)
  have b: "getSingleJob objectIdHex ''65a1f0c2b3d4e5f607182949'' ?db =
     Inl (ErrorHandler ''Job not found!'' (Some 404))"
    using C8_single_job_lookup [of objectIdHex "''65a1f0c2b3d4e5f607182949''" ?db]
    by (simp add: objectIdHex_def hexDigit_def devJob_def)
  have c: "getSingleJob objectIdHex ''65a1f0c2b3d4e5f607182940'' ?db =
     Inr \<lparr>status = 200, success = True,
          content = Single (devJob ''65a1f0c2b3d4e5f607182940'' ''65a1f0c2b3d4e5f60718293a''
            (Some 5000) None None False)\<rparr>"
    using C8_single_job_lookup [of objectIdHex "''65a1f0c2b3d4e5f607182940''" ?db]
    by (simp add: objectIdHex_def hexDigit_def devJob_def)
  from a b c show ?thesis by blast
qed

subsection \<open>Listing the active Jobs\<close>

text \<open>
  Claim C9. \<open>getAllJobs\<close> responds with status 200 and exactly the Jobs of the
  collection whose \<open>expired\<close> is false, in the order of the collection: every stored
  Job that is not expired is listed, and no listed Job is expired.
\<close>

theorem C9_active_jobs_listed:
  "\<exists>js. getAllJobs db = Inr \<lparr>status = 200, success = True, content = Jobs js\<rparr> \<and>
        js = filter (\<lambda>j. \<not> expired j) db \<and>
        set js = {j. j \<in> set db \<and> \<not> expired j}"
  by (simp add: getAllJobs_def find_all_def matches_not_expired)

text \<open>A collection of two active Jobs and an expired one.\<close>

theorem C9_witness:
  "getAllJobs
     [devJob ''65a1f0c2b3d4e5f607182940'' ''65a1f0c2b3d4e5f60718293a'' (Some 5000) None None False,
      devJob ''65a1f0c2b3d4e5f607182941'' ''65a1f0c2b3d4e5f60718293a'' (Some 6000) None None True,
      devJob ''65a1f0c2b3d4e5f607182942'' ''65a1f0c2b3d4e5f60718293b'' None (Some 1000) (Some 2000) False] =
   Inr \<lparr>status = 200, success = True, content = Jobs
     [devJob ''65a1f0c2b3d4e5f607182940'' ''65a1f0c2b3d4e5f60718293a'' (Some 5000) None None False,
      devJob ''65a1f0c2b3d4e5f607182942'' ''65a1f0c2b3d4e5f60718293b'' None (Some 1000) (Some 2000) False]\<rparr>"
  using C9_active_jobs_listed [of
     "[devJob ''65a1f0c2b3d4e5f607182940'' ''65a1f0c2b3d4e5f60718293a'' (Some 5000) None None False,
      devJob ''65a1f0c2b3d4e5f607182941'' ''65a1f0c2b3d4e5f60718293a'' (Some 6000) None None True,
      devJob ''65a1f0c2b3d4e5f607182942'' ''65a1f0c2b3d4e5f60718293b'' None (Some 1000) (Some 2000) False]"]
  by (auto simp: devJob_def)

subsection \<open>A salary of zero counts as absent\<close>

text \<open>
  Claim C10. A create request with \<open>fixedSalary = 0\<close> and no complete salary range, or
  with \<open>salaryFrom = 0\<close> or \<open>salaryTo = 0\<close> and no (non-zero) \<open>fixedSalary\<close>, is rejected
  with status 400 and writes nothing; when the caller is not a Job Seeker and the six
  required fields are non-empty, the rejection is the one for an under-specified
  salary.
\<close>

theorem C10_zero_salary_rejected:
  assumes "fixedSalary b = Some 0 \<and> \<not> (truthyNumber (salaryFrom b) \<and> truthyNumber (salaryTo b)) \<or>
           \<not> truthyNumber (fixedSalary b) \<and> (salaryFrom b = Some 0 \<or> salaryTo b = Some 0)"
  shows "(\<exists>m. postJob oid u b db = (Inl (ErrorHandler m (Some 400)), db)) \<and>
         (role u \<noteq> ''Job Seeker'' \<and> truthyText (title b) \<and> truthyText (description b) \<and>
          truthyText (category b) \<and> truthyText (country b) \<and> truthyText (city b) \<and>
          truthyText (location b) \<longrightarrow>
          postJob oid u b db =
            (Inl (ErrorHandler ''Please either provide fixed salary or ranged salary.''
               (Some 400)), db))"
proof -
  from assms have under: "(\<not> truthyNumber (salaryFrom b) \<or> \<not> truthyNumber (salaryTo b)) \<and>
      \<not> truthyNumber (fixedSalary b)"
    by auto
  then show ?thesis
    unfolding postJob_def by auto
qed

text \<open>
  An Employer's requests with \<open>fixedSalary = 0\<close>, with \<open>salaryFrom = 0\<close> and with
  \<open>salaryTo = 0\<close>.
\<close>

theorem C10_witness:
  "postJob ''65a1f0c2b3d4e5f607182940'' employer (devRequest (Some 0) None None) [] =
     (Inl (ErrorHandler ''Please either provide fixed salary or ranged salary.'' (Some 400)), []) \<and>
   postJob ''65a1f0c2b3d4e5f607182940'' employer (devRequest None (Some 0) (Some 2000)) [] =
     (Inl (ErrorHandler ''Please either provide fixed salary or ranged salary.'' (Some 400)), []) \<and>
   postJob ''65a1f0c2b3d4e5f607182940'' employer (devRequest None (Some 1000) (Some 0)) [] =
     (Inl (ErrorHandler ''Please either provide fixed salary or ranged salary.'' (Some 400)), [])"
proof -
  have a: "postJob ''65a1f0c2b3d4e5f607182940'' employer (devRequest (Some 0) None None) [] =
     (Inl (ErrorHandler ''Please either provide fixed salary or ranged salary.'' (Some 400)), [])"
    using C10_zero_salary_rejected [of "devRequest (Some 0) None None"
        "''65a1f0c2b3d4e5f607182940''" employer "[]"]
    by (simp add: devRequest_def employer_def)
  have b: "postJob ''65a1f0c2b3d4e5f607182940'' employer (devRequest None (Some 0) (Some 2000)) [] =
     (Inl (ErrorHandler ''Please either provide fixed salary or ranged salary.'' (Some 400)), [])"
    using C10_zero_salary_rejected [of "devRequest None (Some 0) (Some 2000)"
        "''65a1f0c2b3d4e5f607182940''" employer "[]"]
    by (simp add: devRequest_def employer_def)
  have c: "postJob ''65a1f0c2b3d4e5f607182940'' employer (devRequest None (Some 1000) (Some 0)) [] =
     (Inl (ErrorHandler ''Please either provide fixed salary or ranged salary.'' (Some 400)), [])"
    using C10_zero_salary_rejected [of "devRequest None (Some 1000) (Some 0)"
        "''65a1f0c2b3d4e5f607182940''" employer "[]"]
    by (simp add: devRequest_def employer_def)
  from a b c show ?thesis by blast
qed

end
